theory Spec2Isabelle
  imports Main "HOL-Library.Word"
begin

section \<open>The Game of Life front end: canvas renderer and animation loop\<close>

text \<open>
  The repository holds two browser front ends for the same WebAssembly engine:
  the canvas program (\<^verbatim>\<open>drawGrid\<close>, \<^verbatim>\<open>getIndex\<close>, \<^verbatim>\<open>drawCells\<close>,
  \<^verbatim>\<open>renderLoop\<close>, \<^verbatim>\<open>run\<close>) and the text-only program of
  \<^verbatim>\<open>game_of_life_pre/www/js/index.js\<close> (\<^verbatim>\<open>renderLoop\<close>, \<^verbatim>\<open>run\<close>).
  Both are embedded here. Every effect of the JavaScript on its host is written to a
  trace, in program order; an exception is a value that carries the state at the throw.

  Numbers: \<^verbatim>\<open>width\<close> and \<^verbatim>\<open>height\<close> are unsigned 32-bit values returned by the
  engine. The pixel coordinates are six times such a value plus one, which a JavaScript
  double holds exactly. The cell indices and the length \<open>width * height\<close> are exact as
  long as they are below \<open>2^53\<close>, which they are wherever a typed array can be built over
  a memory buffer. Numbers are modelled as \<open>nat\<close>.
\<close>

subsection \<open>Values, errors and the host trace\<close>

type_synonym byte = "8 word"

datatype js_error =
    RangeError
  | TypeError
  | InitError string

text \<open>Calls on the 2D rendering context \<^verbatim>\<open>ctx\<close>.\<close>

datatype ctx_op =
    BeginPath
  | StrokeStyle string
  | FillStyle string
  | MoveTo nat nat
  | LineTo nat nat
  | FillRect nat nat nat nat
  | Stroke

text \<open>
  What the program does to its surroundings: \<^verbatim>\<open>console.error\<close>, the writes to the
  canvas size and to \<^verbatim>\<open>textContent\<close> (with the id of the element), the calls on the
  context, the engine step, each element read of the typed array, and
  \<^verbatim>\<open>requestAnimationFrame(renderLoop)\<close>.
\<close>

datatype event =
    ConsoleError js_error
  | SetCanvasHeight nat
  | SetCanvasWidth nat
  | SetTextContent string string
  | EngineTick
  | ViewRead nat
  | Ctx ctx_op
  | RequestAnimationFrame

subsection \<open>The engine, as the front end sees it\<close>

text \<open>
  The engine (the Rust crate compiled to WebAssembly and its generated bindings) is not
  part of the JavaScript sources; it is a parameter. The type \<open>'u\<close> is the state of the
  engine side: the universe together with the linear memory. \<open>wasm_value\<close> is the value
  of \<^verbatim>\<open>await init().catch(console.error)\<close>: the module's exports, or
  \<^verbatim>\<open>undefined\<close> when \<^verbatim>\<open>init()\<close> was rejected. \<open>Universe_new\<close> may throw (it is
  the one binding the text-only program calls whether or not the module was
  instantiated); the other operations are the total ones of an instantiated engine.
\<close>

datatype wasm_value = Undefined | Exports

datatype init_result = Resolved | Rejected js_error

record 'u engine =
  Universe_new :: "wasm_value \<Rightarrow> 'u \<Rightarrow> js_error + 'u"
  e_width :: "'u \<Rightarrow> nat"
  e_height :: "'u \<Rightarrow> nat"
  e_cells :: "'u \<Rightarrow> nat"
  e_tick :: "'u \<Rightarrow> 'u"
  e_render :: "'u \<Rightarrow> string"
  e_buffer :: "'u \<Rightarrow> byte list"

text \<open>
  Modelled from the spec: the constant \<^verbatim>\<open>Cell.Dead\<close> of the generated bindings, which
  are not among the sources. The spec gives the encoding Dead = 0.
\<close>

definition Cell_Dead :: byte where
  "Cell_Dead = 0"

subsection \<open>The state and the primitive effects\<close>

text \<open>
  \<open>pending\<close> counts the frame callbacks that were requested and have not run yet.
\<close>

record 'u world =
  universe :: 'u
  trace :: "event list"
  pending :: nat

datatype 'u outcome = Done "'u world" | Threw js_error "'u world"

definition emit :: "event \<Rightarrow> 'u world \<Rightarrow> 'u world" where
  "emit e w = w\<lparr>trace := trace w @ [e]\<rparr>"

definition requestAnimationFrame :: "'u world \<Rightarrow> 'u world" where
  "requestAnimationFrame w = (emit RequestAnimationFrame w)\<lparr>pending := Suc (pending w)\<rparr>"

definition CELL_SIZE :: nat where
  "CELL_SIZE = 5"

definition GRID_COLOR :: string where
  "GRID_COLOR = ''#CCCCCC''"

definition DEAD_COLOR :: string where
  "DEAD_COLOR = ''#FFFFFF''"

definition ALIVE_COLOR :: string where
  "ALIVE_COLOR = ''#000000''"

subsection \<open>\<^verbatim>\<open>Uint8Array\<close> over an \<^verbatim>\<open>ArrayBuffer\<close>\<close>

text \<open>
  \<^verbatim>\<open>new Uint8Array(buffer, byteOffset, length)\<close> throws a RangeError when the window
  does not lie inside the buffer and checks nothing else. Reading an element at or past
  \<open>length\<close> gives \<^verbatim>\<open>undefined\<close> (\<open>None\<close>). The view holds the bytes its buffer has
  while the view is in use; the program never keeps a view across an engine step.
\<close>

record uint8array =
  v_buffer :: "byte list"
  v_byteOffset :: nat
  v_length :: nat

definition new_Uint8Array :: "byte list \<Rightarrow> nat \<Rightarrow> nat \<Rightarrow> js_error + uint8array" where
  "new_Uint8Array buf off len =
     (if off + len > length buf then Inl RangeError
      else Inr \<lparr>v_buffer = buf, v_byteOffset = off, v_length = len\<rparr>)"

definition view_get :: "uint8array \<Rightarrow> nat \<Rightarrow> byte option" where
  "view_get v i =
     (if i < v_length v then Some (v_buffer v ! (v_byteOffset v + i)) else None)"

subsection \<open>\<^verbatim>\<open>drawGrid\<close>\<close>

function vertical_lines :: "nat \<Rightarrow> nat \<Rightarrow> nat \<Rightarrow> 'u world \<Rightarrow> 'u world" where
  "vertical_lines width height i w =
     (if i \<le> width then
        vertical_lines width height (Suc i)
          (emit (Ctx (LineTo (i * (CELL_SIZE + 1) + 1) ((CELL_SIZE + 1) * height + 1)))
            (emit (Ctx (MoveTo (i * (CELL_SIZE + 1) + 1) 0)) w))
      else w)"
  by pat_completeness auto
termination
  by (relation "measure (\<lambda>(width, height, i, w). Suc width - i)") auto

function horizontal_lines :: "nat \<Rightarrow> nat \<Rightarrow> nat \<Rightarrow> 'u world \<Rightarrow> 'u world" where
  "horizontal_lines width height j w =
     (if j \<le> height then
        horizontal_lines width height (Suc j)
          (emit (Ctx (LineTo ((CELL_SIZE + 1) * width + 1) (j * (CELL_SIZE + 1) + 1)))
            (emit (Ctx (MoveTo 0 (j * (CELL_SIZE + 1) + 1))) w))
      else w)"
  by pat_completeness auto
termination
  by (relation "measure (\<lambda>(width, height, j, w). Suc height - j)") auto

definition drawGrid :: "nat \<Rightarrow> nat \<Rightarrow> 'u world \<Rightarrow> 'u world" where
  "drawGrid width height w =
     emit (Ctx Stroke)
       (horizontal_lines width height 0
         (vertical_lines width height 0
           (emit (Ctx (StrokeStyle GRID_COLOR)) (emit (Ctx BeginPath) w))))"

subsection \<open>\<^verbatim>\<open>getIndex\<close> and \<^verbatim>\<open>drawCells\<close>\<close>

text \<open>
  JavaScript evaluates \<^verbatim>\<open>row * width + column\<close> in doubles: the result is the integer
  written here whenever the product and the sum are below \<open>2^53\<close>, and may be rounded
  beyond. The program calls \<^verbatim>\<open>getIndex\<close> only for the cells of a view that was built,
  where \<open>row * width + column < width * height\<close> and \<open>width * height\<close> is at most the byte
  length of a buffer; the theorem about \<^verbatim>\<open>getIndex\<close> alone states the bound
  \<open>width * height \<le> 2^53\<close> as its hypothesis.
\<close>

definition getIndex :: "nat \<Rightarrow> nat \<Rightarrow> nat \<Rightarrow> nat" where
  "getIndex width row column = row * width + column"

text \<open>
  The body of the inner loop: read \<^verbatim>\<open>cells[idx]\<close>, compare it with \<^verbatim>\<open>Cell.Dead\<close> by
  \<^verbatim>\<open>===\<close> (\<^verbatim>\<open>undefined\<close> is not equal to it), set the fill style, fill the square.
\<close>

definition drawCell :: "uint8array \<Rightarrow> nat \<Rightarrow> nat \<Rightarrow> nat \<Rightarrow> 'u world \<Rightarrow> 'u world" where
  "drawCell cells width row col w =
     (let idx = getIndex width row col;
          w1 = emit (ViewRead idx) w;
          w2 = emit (Ctx (FillStyle
                 (if view_get cells idx = Some Cell_Dead then DEAD_COLOR else ALIVE_COLOR))) w1
      in emit (Ctx (FillRect (col * (CELL_SIZE + 1) + 1) (row * (CELL_SIZE + 1) + 1)
                 CELL_SIZE CELL_SIZE)) w2)"

function cols_loop :: "uint8array \<Rightarrow> nat \<Rightarrow> nat \<Rightarrow> nat \<Rightarrow> 'u world \<Rightarrow> 'u world" where
  "cols_loop cells width row col w =
     (if col < width then cols_loop cells width row (Suc col) (drawCell cells width row col w)
      else w)"
  by pat_completeness auto
termination
  by (relation "measure (\<lambda>(cells, width, row, col, w). width - col)") auto

function rows_loop :: "uint8array \<Rightarrow> nat \<Rightarrow> nat \<Rightarrow> nat \<Rightarrow> 'u world \<Rightarrow> 'u world" where
  "rows_loop cells width height row w =
     (if row < height then rows_loop cells width height (Suc row) (cols_loop cells width row 0 w)
      else w)"
  by pat_completeness auto
termination
  by (relation "measure (\<lambda>(cells, width, height, row, w). height - row)") auto

text \<open>
  \<^verbatim>\<open>const cells = new Uint8Array(memory.buffer, cellsPtr, width * height)\<close>, built
  from what the engine holds at the moment of the call.
\<close>

definition stateView :: "'u engine \<Rightarrow> nat \<Rightarrow> nat \<Rightarrow> 'u \<Rightarrow> js_error + uint8array" where
  "stateView eng width height u =
     (let cellsPtr = e_cells eng u
      in new_Uint8Array (e_buffer eng u) cellsPtr (width * height))"

definition drawCells :: "'u engine \<Rightarrow> nat \<Rightarrow> nat \<Rightarrow> 'u world \<Rightarrow> 'u outcome" where
  "drawCells eng width height w =
     (case stateView eng width height (universe w) of
        Inl e \<Rightarrow> Threw e w
      | Inr cells \<Rightarrow>
          Done (emit (Ctx Stroke)
                 (rows_loop cells width height 0 (emit (Ctx BeginPath) w))))"

subsection \<open>\<^verbatim>\<open>renderLoop\<close>, the host's frame callbacks, and \<^verbatim>\<open>run\<close>\<close>

definition renderLoop :: "'u engine \<Rightarrow> nat \<Rightarrow> nat \<Rightarrow> 'u world \<Rightarrow> 'u outcome" where
  "renderLoop eng width height w =
     (let w1 = emit (SetTextContent ''game-of-life-pre'' (e_render eng (universe w))) w;
          w2 = (emit EngineTick w1)\<lparr>universe := e_tick eng (universe w1)\<rparr>;
          w3 = drawGrid width height w2
      in case drawCells eng width height w3 of
           Threw e w4 \<Rightarrow> Threw e w4
         | Done w4 \<Rightarrow> Done (requestAnimationFrame w4))"

text \<open>
  The host calls a requested callback once, before a display refresh. \<open>frames n\<close> is
  \<open>n\<close> refreshes: at each one a pending callback, if there is one, is taken and run; an
  exception leaves the callback and nothing is requested any more.
\<close>

fun frames :: "('u world \<Rightarrow> 'u outcome) \<Rightarrow> nat \<Rightarrow> 'u world \<Rightarrow> 'u outcome" where
  "frames callback 0 w = Done w"
| "frames callback (Suc n) w =
     (if pending w = 0 then Done w
      else case callback (w\<lparr>pending := pending w - 1\<rparr>) of
             Threw e w' \<Rightarrow> Threw e w'
           | Done w' \<Rightarrow> frames callback n w')"

text \<open>
  \<^verbatim>\<open>const wasm = await init().catch(console.error)\<close>: a rejection is passed to
  \<^verbatim>\<open>console.error\<close>, whose result \<^verbatim>\<open>undefined\<close> becomes the value.
\<close>

definition await_init :: "init_result \<Rightarrow> 'u world \<Rightarrow> wasm_value \<times> 'u world" where
  "await_init r w =
     (case r of
        Resolved \<Rightarrow> (Exports, w)
      | Rejected e \<Rightarrow> (Undefined, emit (ConsoleError e) w))"

text \<open>
  \<open>run\<close> of the canvas program, followed by \<open>n\<close> display refreshes. Reading
  \<^verbatim>\<open>wasm.memory\<close> of \<^verbatim>\<open>undefined\<close> throws a TypeError. The two elements are taken to
  exist in the page.
\<close>

definition run :: "'u engine \<Rightarrow> init_result \<Rightarrow> nat \<Rightarrow> 'u world \<Rightarrow> 'u outcome" where
  "run eng r n w =
     (case await_init r w of
        (Undefined, w1) \<Rightarrow> Threw TypeError w1
      | (Exports, w1) \<Rightarrow>
          (case Universe_new eng Exports (universe w1) of
             Inl e \<Rightarrow> Threw e w1
           | Inr u \<Rightarrow>
               (let w2 = w1\<lparr>universe := u\<rparr>;
                    width = e_width eng u;
                    height = e_height eng u;
                    w3 = emit (SetCanvasHeight ((CELL_SIZE + 1) * height + 1)) w2;
                    w4 = emit (SetCanvasWidth ((CELL_SIZE + 1) * width + 1)) w3
                in frames (renderLoop eng width height) n (requestAnimationFrame w4))))"

subsection \<open>The text-only program\<close>

definition renderLoop_pre :: "'u engine \<Rightarrow> 'u world \<Rightarrow> 'u outcome" where
  "renderLoop_pre eng w =
     (let w1 = emit (SetTextContent ''game-of-life-canvas'' (e_render eng (universe w))) w;
          w2 = (emit EngineTick w1)\<lparr>universe := e_tick eng (universe w1)\<rparr>
      in Done (requestAnimationFrame w2))"

text \<open>
  Here the value of \<^verbatim>\<open>wasm\<close> is not used by the program itself: after a rejected
  \<^verbatim>\<open>init()\<close> it goes on to \<^verbatim>\<open>Universe.new()\<close>, called on a module that was never
  instantiated.
\<close>

definition run_pre :: "'u engine \<Rightarrow> init_result \<Rightarrow> nat \<Rightarrow> 'u world \<Rightarrow> 'u outcome" where
  "run_pre eng r n w =
     (case await_init r w of
        (wasm, w1) \<Rightarrow>
          (case Universe_new eng wasm (universe w1) of
             Inl e \<Rightarrow> Threw e w1
           | Inr u \<Rightarrow> frames (renderLoop_pre eng) n (requestAnimationFrame (w1\<lparr>universe := u\<rparr>))))"

subsection \<open>Observations on traces\<close>

text \<open>
  The definitions below are not program text. \<open>emit_all\<close> appends several events;
  \<open>grid_lines\<close> and \<open>cell_squares\<close> are the events one call of \<^verbatim>\<open>drawGrid\<close> and of
  \<^verbatim>\<open>drawCells\<close> are expected to leave, written as the design describes them; the
  remaining functions select events of one kind from a trace.
\<close>

definition emit_all :: "event list \<Rightarrow> 'u world \<Rightarrow> 'u world" where
  "emit_all es w = w\<lparr>trace := trace w @ es\<rparr>"

definition grid_lines :: "nat \<Rightarrow> nat \<Rightarrow> event list" where
  "grid_lines width height =
     [Ctx BeginPath, Ctx (StrokeStyle GRID_COLOR)]
     @ concat (map (\<lambda>i. [Ctx (MoveTo (i * (CELL_SIZE + 1) + 1) 0),
                          Ctx (LineTo (i * (CELL_SIZE + 1) + 1) ((CELL_SIZE + 1) * height + 1))])
                [0..<Suc width])
     @ concat (map (\<lambda>j. [Ctx (MoveTo 0 (j * (CELL_SIZE + 1) + 1)),
                          Ctx (LineTo ((CELL_SIZE + 1) * width + 1) (j * (CELL_SIZE + 1) + 1))])
                [0..<Suc height])
     @ [Ctx Stroke]"

definition cell_square :: "uint8array \<Rightarrow> nat \<Rightarrow> nat \<Rightarrow> nat \<Rightarrow> event list" where
  "cell_square cells width row col =
     [ViewRead (row * width + col),
      Ctx (FillStyle (if view_get cells (row * width + col) = Some Cell_Dead
                      then DEAD_COLOR else ALIVE_COLOR)),
      Ctx (FillRect (col * (CELL_SIZE + 1) + 1) (row * (CELL_SIZE + 1) + 1) CELL_SIZE CELL_SIZE)]"

definition cell_squares :: "uint8array \<Rightarrow> nat \<Rightarrow> nat \<Rightarrow> event list" where
  "cell_squares cells width height =
     [Ctx BeginPath]
     @ concat (map (\<lambda>(row, col). cell_square cells width row col)
                (List.product [0..<height] [0..<width]))
     @ [Ctx Stroke]"

definition view_fits :: "'u engine \<Rightarrow> nat \<Rightarrow> nat \<Rightarrow> 'u \<Rightarrow> bool" where
  "view_fits eng width height u \<longleftrightarrow> e_cells eng u + width * height \<le> length (e_buffer eng u)"

fun world_of :: "'u outcome \<Rightarrow> 'u world" where
  "world_of (Done w) = w"
| "world_of (Threw e w) = w"

fun view_reads :: "event list \<Rightarrow> nat list" where
  "view_reads [] = []"
| "view_reads (ViewRead i # es) = i # view_reads es"
| "view_reads (e # es) = view_reads es"

fun fill_styles :: "event list \<Rightarrow> string list" where
  "fill_styles [] = []"
| "fill_styles (Ctx (FillStyle s) # es) = s # fill_styles es"
| "fill_styles (e # es) = fill_styles es"

fun is_canvas_size :: "event \<Rightarrow> bool" where
  "is_canvas_size (SetCanvasHeight n) = True"
| "is_canvas_size (SetCanvasWidth n) = True"
| "is_canvas_size e = False"

fun fill_rects :: "event list \<Rightarrow> (nat \<times> nat \<times> nat \<times> nat) list" where
  "fill_rects [] = []"
| "fill_rects (Ctx (FillRect x y a b) # es) = (x, y, a, b) # fill_rects es"
| "fill_rects (e # es) = fill_rects es"

fun stroke_styles :: "event list \<Rightarrow> string list" where
  "stroke_styles [] = []"
| "stroke_styles (Ctx (StrokeStyle s) # es) = s # stroke_styles es"
| "stroke_styles (e # es) = stroke_styles es"

fun is_LineTo :: "event \<Rightarrow> bool" where
  "is_LineTo (Ctx (LineTo x y)) = True"
| "is_LineTo e = False"

text \<open>
  The colour decision as the design states it: a function of the state byte alone.
\<close>

definition fill_color :: "byte \<Rightarrow> string" where
  "fill_color b = (if b = 0 then ''#FFFFFF'' else ''#000000'')"

text \<open>
  A small concrete engine for instantiating the theorems: \<open>cols\<close> by \<open>rows\<close> cells, one
  byte each, stored from address 1 of a memory whose byte 0 is not a cell; a step turns
  every cell over; the bindings throw a TypeError on a module that was not instantiated.
\<close>

definition toggle :: "byte \<Rightarrow> byte" where
  "toggle b = (if b = 0 then 1 else 0)"

definition small_engine :: "nat \<Rightarrow> nat \<Rightarrow> (byte list) engine" where
  "small_engine cols rows =
     \<lparr>Universe_new = (\<lambda>wasm u. case wasm of
                         Undefined \<Rightarrow> Inl TypeError
                       | Exports \<Rightarrow> Inr (255 # replicate (cols * rows) 0)),
      e_width = (\<lambda>u. cols),
      e_height = (\<lambda>u. rows),
      e_cells = (\<lambda>u. 1),
      e_tick = (\<lambda>u. case u of [] \<Rightarrow> [] | h # cs \<Rightarrow> h # map toggle cs),
      e_render = (\<lambda>u. map (\<lambda>b. if b = 0 then CHR ''.'' else CHR ''#'') (tl u)),
      e_buffer = (\<lambda>u. u)\<rparr>"

section \<open>The loops as traces\<close>

lemma emit_emit_all: "emit e w = emit_all [e] w"
  by (simp add: emit_def emit_all_def)

lemma emit_all_Nil: "emit_all [] w = w"
  by (simp add: emit_all_def)

lemma emit_all_emit_all: "emit_all es (emit_all ds w) = emit_all (ds @ es) w"
  by (simp add: emit_all_def)

declare vertical_lines.simps [simp del] horizontal_lines.simps [simp del]
  cols_loop.simps [simp del] rows_loop.simps [simp del]

lemma vertical_lines_trace:
  "vertical_lines width height i w =
     emit_all (concat (map (\<lambda>i. [Ctx (MoveTo (i * (CELL_SIZE + 1) + 1) 0),
                          Ctx (LineTo (i * (CELL_SIZE + 1) + 1) ((CELL_SIZE + 1) * height + 1))])
                [i..<Suc width])) w"
proof (induction width height i w rule: vertical_lines.induct)
  case (1 width height i w)
  show ?case
  proof (cases "i \<le> width")
    case True
    then have "[i..<Suc width] = i # [Suc i..<Suc width]"
      by (simp add: upt_conv_Cons)
    with True 1 show ?thesis
      by (subst vertical_lines.simps) (simp add: emit_emit_all emit_all_emit_all)
  next
    case False
    then show ?thesis
      by (subst vertical_lines.simps) (simp add: emit_all_Nil)
  qed
qed

lemma horizontal_lines_trace:
  "horizontal_lines width height j w =
     emit_all (concat (map (\<lambda>j. [Ctx (MoveTo 0 (j * (CELL_SIZE + 1) + 1)),
                          Ctx (LineTo ((CELL_SIZE + 1) * width + 1) (j * (CELL_SIZE + 1) + 1))])
                [j..<Suc height])) w"
proof (induction width height j w rule: horizontal_lines.induct)
  case (1 width height j w)
  show ?case
  proof (cases "j \<le> height")
    case True
    then have "[j..<Suc height] = j # [Suc j..<Suc height]"
      by (simp add: upt_conv_Cons)
    with True 1 show ?thesis
      by (subst horizontal_lines.simps) (simp add: emit_emit_all emit_all_emit_all)
  next
    case False
    then show ?thesis
      by (subst horizontal_lines.simps) (simp add: emit_all_Nil)
  qed
qed

lemma drawGrid_trace: "drawGrid width height w = emit_all (grid_lines width height) w"
  by (simp add: drawGrid_def grid_lines_def vertical_lines_trace horizontal_lines_trace
      emit_emit_all emit_all_emit_all)

lemma drawCell_trace: "drawCell cells width row col w = emit_all (cell_square cells width row col) w"
  by (simp add: drawCell_def cell_square_def getIndex_def Let_def emit_emit_all emit_all_emit_all)

lemma cols_loop_trace:
  "cols_loop cells width row col w =
     emit_all (concat (map (cell_square cells width row) [col..<width])) w"
proof (induction cells width row col w rule: cols_loop.induct)
  case (1 cells width row col w)
  show ?case
  proof (cases "col < width")
    case True
    then have "[col..<width] = col # [Suc col..<width]"
      by (simp add: upt_conv_Cons)
    with True 1 show ?thesis
      by (subst cols_loop.simps) (simp add: drawCell_trace emit_all_emit_all)
  next
    case False
    then show ?thesis
      by (subst cols_loop.simps) (simp add: emit_all_Nil)
  qed
qed

lemma rows_loop_trace:
  "rows_loop cells width height row w =
     emit_all (concat (map (\<lambda>row. concat (map (cell_square cells width row) [0..<width]))
                 [row..<height])) w"
proof (induction cells width height row w rule: rows_loop.induct)
  case (1 cells width height row w)
  show ?case
  proof (cases "row < height")
    case True
    then have "[row..<height] = row # [Suc row..<height]"
      by (simp add: upt_conv_Cons)
    with True 1 show ?thesis
      by (subst rows_loop.simps) (simp add: cols_loop_trace emit_all_emit_all)
  next
    case False
    then show ?thesis
      by (subst rows_loop.simps) (simp add: emit_all_Nil)
  qed
qed

lemma concat_rows_product:
  "concat (map (\<lambda>row. concat (map (f row) cs)) rs) =
     concat (map (\<lambda>(row, col). f row col) (List.product rs cs))"
  by (induction rs) (simp_all add: map_concat comp_def)

lemma drawCells_trace:
  "stateView eng width height (universe w) = Inr cells \<Longrightarrow>
     drawCells eng width height w = Done (emit_all (cell_squares cells width height) w)"
  by (simp add: drawCells_def cell_squares_def rows_loop_trace concat_rows_product
      emit_emit_all emit_all_emit_all)

lemma drawCells_throws:
  "stateView eng width height (universe w) = Inl e \<Longrightarrow> drawCells eng width height w = Threw e w"
  by (simp add: drawCells_def)

lemma stateView_eq:
  "stateView eng width height u =
     (if e_cells eng u + width * height \<le> length (e_buffer eng u)
      then Inr \<lparr>v_buffer = e_buffer eng u, v_byteOffset = e_cells eng u, v_length = width * height\<rparr>
      else Inl RangeError)"
  by (simp add: stateView_def new_Uint8Array_def)

lemma renderLoop_done:
  assumes "stateView eng width height (e_tick eng (universe w)) = Inr cells"
  shows "renderLoop eng width height w =
     Done ((emit_all ([SetTextContent ''game-of-life-pre'' (e_render eng (universe w)), EngineTick]
                      @ grid_lines width height @ cell_squares cells width height
                      @ [RequestAnimationFrame]) w)
            \<lparr>universe := e_tick eng (universe w), pending := Suc (pending w)\<rparr>)"
proof -
  let ?w3 = "(emit_all ([SetTextContent ''game-of-life-pre'' (e_render eng (universe w)), EngineTick]
                @ grid_lines width height) w)\<lparr>universe := e_tick eng (universe w)\<rparr>"
  have w3: "drawGrid width height
      ((emit EngineTick (emit (SetTextContent ''game-of-life-pre'' (e_render eng (universe w))) w))
         \<lparr>universe := e_tick eng (universe (emit (SetTextContent ''game-of-life-pre'' (e_render eng (universe w))) w))\<rparr>) = ?w3"
    by (simp add: drawGrid_trace emit_def emit_all_def)
  have u3: "universe ?w3 = e_tick eng (universe w)"
    by (simp add: emit_all_def)
  have "drawCells eng width height ?w3 = Done (emit_all (cell_squares cells width height) ?w3)"
    using assms u3 by (simp add: drawCells_trace)
  then show ?thesis
    unfolding renderLoop_def Let_def w3
    by (simp add: requestAnimationFrame_def emit_def emit_all_def)
qed

lemma renderLoop_throws:
  assumes "stateView eng width height (e_tick eng (universe w)) = Inl e"
  shows "renderLoop eng width height w =
     Threw e ((emit_all ([SetTextContent ''game-of-life-pre'' (e_render eng (universe w)), EngineTick]
                      @ grid_lines width height) w)
            \<lparr>universe := e_tick eng (universe w)\<rparr>)"
proof -
  let ?w3 = "(emit_all ([SetTextContent ''game-of-life-pre'' (e_render eng (universe w)), EngineTick]
                @ grid_lines width height) w)\<lparr>universe := e_tick eng (universe w)\<rparr>"
  have w3: "drawGrid width height
      ((emit EngineTick (emit (SetTextContent ''game-of-life-pre'' (e_render eng (universe w))) w))
         \<lparr>universe := e_tick eng (universe (emit (SetTextContent ''game-of-life-pre'' (e_render eng (universe w))) w))\<rparr>) = ?w3"
    by (simp add: drawGrid_trace emit_def emit_all_def)
  have u3: "universe ?w3 = e_tick eng (universe w)"
    by (simp add: emit_all_def)
  have "drawCells eng width height ?w3 = Threw e ?w3"
    using assms u3 by (simp add: drawCells_throws)
  then show ?thesis
    unfolding renderLoop_def Let_def w3 by simp
qed

lemma renderLoop_pre_done:
  "renderLoop_pre eng w =
     Done ((emit_all [SetTextContent ''game-of-life-canvas'' (e_render eng (universe w)),
                      EngineTick, RequestAnimationFrame] w)
            \<lparr>universe := e_tick eng (universe w), pending := Suc (pending w)\<rparr>)"
  by (simp add: renderLoop_pre_def requestAnimationFrame_def emit_def emit_all_def)

lemma filter_grid_lines: "filter is_canvas_size (grid_lines width height) = []"
  by (simp add: grid_lines_def filter_concat comp_def)

lemma filter_cell_squares: "filter is_canvas_size (cell_squares cells width height) = []"
  by (simp add: cell_squares_def cell_square_def filter_concat comp_def split_def)

lemma renderLoop_canvas_size:
  "filter is_canvas_size (trace (world_of (renderLoop eng width height w))) =
     filter is_canvas_size (trace w)"
proof (cases "stateView eng width height (e_tick eng (universe w))")
  case (Inl e)
  then show ?thesis
    by (simp add: renderLoop_throws emit_all_def filter_grid_lines)
next
  case (Inr cells)
  then show ?thesis
    by (simp add: renderLoop_done emit_all_def filter_grid_lines filter_cell_squares)
qed

lemma frames_canvas_size:
  "filter is_canvas_size (trace (world_of (frames (renderLoop eng width height) n w))) =
     filter is_canvas_size (trace w)"
proof (induction n arbitrary: w)
  case 0
  show ?case by simp
next
  case (Suc n)
  show ?case
  proof (cases "pending w = 0")
    case True
    then show ?thesis by simp
  next
    case False
    let ?w0 = "w\<lparr>pending := pending w - 1\<rparr>"
    have step: "filter is_canvas_size (trace (world_of (renderLoop eng width height ?w0))) =
        filter is_canvas_size (trace w)"
      by (simp add: renderLoop_canvas_size)
    show ?thesis
    proof (cases "renderLoop eng width height ?w0")
      case (Done w')
      with False step Suc.IH [of w'] show ?thesis by simp
    next
      case (Threw e w')
      with False step show ?thesis by simp
    qed
  qed
qed

lemma frames_renderLoop_done:
  assumes fits: "\<forall>k. view_fits eng width height ((e_tick eng ^^ Suc k) (universe w))"
    and p: "0 < pending w"
  shows "\<exists>w'. frames (renderLoop eng width height) n w = Done w'
           \<and> pending w' = pending w
           \<and> universe w' = (e_tick eng ^^ n) (universe w)
           \<and> length (filter ((=) EngineTick) (trace w')) = length (filter ((=) EngineTick) (trace w)) + n
           \<and> length (filter ((=) RequestAnimationFrame) (trace w')) =
               length (filter ((=) RequestAnimationFrame) (trace w)) + n"
  using fits p
proof (induction n arbitrary: w)
  case 0
  then show ?case by simp
next
  case (Suc n)
  let ?w0 = "w\<lparr>pending := pending w - 1\<rparr>"
  from Suc.prems(1) have "view_fits eng width height ((e_tick eng ^^ Suc 0) (universe w))"
    by blast
  then obtain cells where cells: "stateView eng width height (e_tick eng (universe ?w0)) = Inr cells"
    by (simp add: stateView_eq view_fits_def)
  define w1 where "w1 = (emit_all ([SetTextContent ''game-of-life-pre'' (e_render eng (universe ?w0)), EngineTick]
                      @ grid_lines width height @ cell_squares cells width height
                      @ [RequestAnimationFrame]) ?w0)
            \<lparr>universe := e_tick eng (universe ?w0), pending := Suc (pending ?w0)\<rparr>"
  have r: "renderLoop eng width height ?w0 = Done w1"
    unfolding w1_def by (rule renderLoop_done [OF cells])
  have u1: "universe w1 = e_tick eng (universe w)" and p1: "pending w1 = pending w"
    using Suc.prems(2) by (simp_all add: w1_def emit_all_def)
  have fits1: "\<forall>k. view_fits eng width height ((e_tick eng ^^ Suc k) (universe w1))"
  proof
    fix k
    from Suc.prems(1) have "view_fits eng width height ((e_tick eng ^^ Suc (Suc k)) (universe w))"
      by blast
    then show "view_fits eng width height ((e_tick eng ^^ Suc k) (universe w1))"
      by (simp add: u1 funpow_swap1)
  qed
  have t1: "length (filter ((=) EngineTick) (trace w1)) = Suc (length (filter ((=) EngineTick) (trace w)))"
    by (simp add: w1_def emit_all_def grid_lines_def cell_squares_def cell_square_def
        filter_concat comp_def split_def)
  have q1: "length (filter ((=) RequestAnimationFrame) (trace w1)) =
      Suc (length (filter ((=) RequestAnimationFrame) (trace w)))"
    by (simp add: w1_def emit_all_def grid_lines_def cell_squares_def cell_square_def
        filter_concat comp_def split_def)
  from p1 Suc.prems(2) have p1': "0 < pending w1"
    by simp
  from Suc.IH [OF fits1 p1'] obtain w' where
    "frames (renderLoop eng width height) n w1 = Done w'" "pending w' = pending w1"
    "universe w' = (e_tick eng ^^ n) (universe w1)"
    "length (filter ((=) EngineTick) (trace w')) = length (filter ((=) EngineTick) (trace w1)) + n"
    "length (filter ((=) RequestAnimationFrame) (trace w')) =
       length (filter ((=) RequestAnimationFrame) (trace w1)) + n"
    by blast
  with r Suc.prems(2) u1 p1 t1 q1 show ?case
    by (simp add: funpow_swap1)
qed

lemma view_reads_append: "view_reads (xs @ ys) = view_reads xs @ view_reads ys"
  by (induction xs rule: view_reads.induct) simp_all

lemma fill_styles_append: "fill_styles (xs @ ys) = fill_styles xs @ fill_styles ys"
  by (induction xs rule: fill_styles.induct) simp_all

lemma fill_rects_append: "fill_rects (xs @ ys) = fill_rects xs @ fill_rects ys"
  by (induction xs rule: fill_rects.induct) simp_all

lemma view_reads_cells:
  "view_reads (concat (map (\<lambda>(row, col). cell_square cells width row col) ps)) =
     map (\<lambda>(row, col). row * width + col) ps"
  by (induction ps) (auto simp: view_reads_append cell_square_def)

lemma fill_styles_cells:
  "fill_styles (concat (map (\<lambda>(row, col). cell_square cells width row col) ps)) =
     map (\<lambda>(row, col). if view_get cells (row * width + col) = Some Cell_Dead
                         then DEAD_COLOR else ALIVE_COLOR) ps"
  by (induction ps) (auto simp: fill_styles_append cell_square_def)

lemma fill_rects_cells:
  "fill_rects (concat (map (\<lambda>(row, col). cell_square cells width row col) ps)) =
     map (\<lambda>(row, col). (col * (CELL_SIZE + 1) + 1, row * (CELL_SIZE + 1) + 1, CELL_SIZE, CELL_SIZE)) ps"
  by (induction ps) (auto simp: fill_rects_append cell_square_def)

lemma index_in_range:
  assumes "row < height" "col < (width::nat)"
  shows "row * width + col < width * height"
proof -
  have "row * width + col < row * width + width"
    using assms by simp
  also have "\<dots> = Suc row * width"
    by simp
  also have "\<dots> \<le> height * width"
    using assms by (intro mult_le_mono1) simp
  finally show ?thesis
    by (simp add: mult.commute)
qed

lemma getIndex_bij:
  "bij_betw (\<lambda>(row, col). getIndex width row col) ({..<height} \<times> {..<width}) {..<width * height}"
proof (rule bij_betw_byWitness [where f' = "\<lambda>i. (i div width, i mod width)"])
  show "\<forall>p\<in>{..<height} \<times> {..<width}.
          (\<lambda>i. (i div width, i mod width)) ((\<lambda>(row, col). getIndex width row col) p) = p"
    by (auto simp: getIndex_def)
  show "\<forall>i\<in>{..<width * height}.
          (\<lambda>(row, col). getIndex width row col) ((\<lambda>i. (i div width, i mod width)) i) = i"
    by (auto simp: getIndex_def)
  show "(\<lambda>(row, col). getIndex width row col) ` ({..<height} \<times> {..<width}) \<subseteq> {..<width * height}"
    by (auto simp: getIndex_def index_in_range)
  show "(\<lambda>i. (i div width, i mod width)) ` {..<width * height} \<subseteq> {..<height} \<times> {..<width}"
  proof
    fix p assume "p \<in> (\<lambda>i. (i div width, i mod width)) ` {..<width * height}"
    then obtain i where i: "i < width * height" and p: "p = (i div width, i mod width)"
      by auto
    from i have "0 < width"
      by (cases width) simp_all
    moreover from i have "i div width < height"
      by (simp add: less_mult_imp_div_less mult.commute)
    ultimately show "p \<in> {..<height} \<times> {..<width}"
      using p by simp
  qed
qed

section \<open>The claims\<close>

text \<open>
  C2. Let the grid have at most \<open>2^53\<close> cells (any grid whose cells lie in a memory
  buffer has). For every row below \<open>height\<close> and column below \<open>width\<close>,
  \<^verbatim>\<open>getIndex(row, col)\<close> is \<open>row * width + col\<close>, and both the product and the sum are
  below \<open>2^53\<close>, so that the doubles of the source hold them exactly; in a fixed row the
  index grows strictly with the column; and the cells are mapped one-to-one onto the
  indices below \<open>width * height\<close>.
\<close>

theorem getIndex_row_major:
  assumes bound: "width * height \<le> 2 ^ 53"
  shows "(\<forall>row<height. \<forall>col<width.
            getIndex width row col = row * width + col
            \<and> row * width \<le> getIndex width row col
            \<and> getIndex width row col < 2 ^ 53)
   \<and> (\<forall>row<height. \<forall>c1<width. \<forall>c2<width.
         c1 < c2 \<longrightarrow> getIndex width row c1 < getIndex width row c2)
   \<and> bij_betw (\<lambda>(row, col). getIndex width row col)
        ({..<height} \<times> {..<width}) {..<width * height}"
proof (intro conjI)
  show "\<forall>row<height. \<forall>col<width.
            getIndex width row col = row * width + col
            \<and> row * width \<le> getIndex width row col
            \<and> getIndex width row col < 2 ^ 53"
  proof (intro allI impI)
    fix row col assume "row < height" "col < width"
    then have "row * width + col < width * height"
      by (rule index_in_range)
    with bound show "getIndex width row col = row * width + col
            \<and> row * width \<le> getIndex width row col
            \<and> getIndex width row col < 2 ^ 53"
      by (simp add: getIndex_def)
  qed
  show "\<forall>row<height. \<forall>c1<width. \<forall>c2<width.
         c1 < c2 \<longrightarrow> getIndex width row c1 < getIndex width row c2"
    by (simp add: getIndex_def)
  show "bij_betw (\<lambda>(row, col). getIndex width row col)
        ({..<height} \<times> {..<width}) {..<width * height}"
    by (rule getIndex_bij)
qed

theorem getIndex_row_major_witness:
  "(3::nat) * 2 \<le> 2 ^ 53
   \<and> getIndex 3 1 2 = 5 \<and> getIndex 3 1 1 < getIndex 3 1 2
   \<and> bij_betw (\<lambda>(row, col). getIndex 3 row col) ({..<2} \<times> {..<3}) {..<3 * 2}
   \<and> getIndex 134217728 67108863 134217727 = 9007199254740991
   \<and> getIndex 134217728 67108863 134217726 < getIndex 134217728 67108863 134217727"
proof -
  have small: "(3::nat) * 2 \<le> 2 ^ 53"
    by simp
  have large: "(134217728::nat) * 67108864 \<le> 2 ^ 53"
    by simp
  from getIndex_row_major [OF small]
  have 1: "getIndex 3 1 2 = 5 \<and> getIndex 3 1 1 < getIndex 3 1 2
     \<and> bij_betw (\<lambda>(row, col). getIndex 3 row col) ({..<2} \<times> {..<3}) {..<3 * 2}"
    by simp
  from getIndex_row_major [OF large]
  have 2: "getIndex 134217728 67108863 134217727 = 9007199254740991
     \<and> getIndex 134217728 67108863 134217726 < getIndex 134217728 67108863 134217727"
    by simp
  from small 1 2 show ?thesis by blast
qed

lemma upt_0_2: "[0..<2] = [0, 1]"
  by (simp add: upt_rec)

lemma upt_0_1: "[0..<1] = [0]"
  by (simp add: upt_rec)

lemma stateView_Inr:
  "stateView eng width height u = Inr cells \<Longrightarrow>
     cells = \<lparr>v_buffer = e_buffer eng u, v_byteOffset = e_cells eng u, v_length = width * height\<rparr>
     \<and> e_cells eng u + width * height \<le> length (e_buffer eng u)"
  by (auto simp: stateView_eq split: if_splits)

lemma stroke_styles_append: "stroke_styles (xs @ ys) = stroke_styles xs @ stroke_styles ys"
  by (induction xs rule: stroke_styles.induct) simp_all

lemma stroke_styles_lines:
  "stroke_styles (concat (map (\<lambda>i. [Ctx (MoveTo (a i) (b i)), Ctx (LineTo (c i) (d i))]) xs)) = []"
  by (induction xs) simp_all

lemma grid_lines_counts:
  "length (filter ((=) (Ctx Stroke)) (grid_lines width height)) = 1"
  "length (filter ((=) (Ctx BeginPath)) (grid_lines width height)) = 1"
  "length (filter is_LineTo (grid_lines width height)) = (width + 1) + (height + 1)"
  "stroke_styles (grid_lines width height) = [GRID_COLOR]"
  by (simp_all add: grid_lines_def filter_concat comp_def length_concat sum_list_triv
      stroke_styles_append stroke_styles_lines)

text \<open>
  C5. One call of \<^verbatim>\<open>drawGrid\<close> leaves exactly these context calls: \<^verbatim>\<open>beginPath\<close>, one
  stroke style (the grid colour), then for each \<open>i\<close> from \<open>0\<close> to \<open>width\<close> a line from
  \<open>(i * (CELL_SIZE + 1) + 1, 0)\<close> to \<open>(i * (CELL_SIZE + 1) + 1, (CELL_SIZE + 1) * height + 1)\<close>,
  then for each \<open>j\<close> from \<open>0\<close> to \<open>height\<close> a line from \<open>(0, j * (CELL_SIZE + 1) + 1)\<close> to
  \<open>((CELL_SIZE + 1) * width + 1, j * (CELL_SIZE + 1) + 1)\<close>, and one \<^verbatim>\<open>stroke\<close> for all of
  them: \<open>width + 1\<close> vertical and \<open>height + 1\<close> horizontal lines.
\<close>

theorem drawGrid_lines:
  "drawGrid width height w =
     w\<lparr>trace := trace w
         @ [Ctx BeginPath, Ctx (StrokeStyle GRID_COLOR)]
         @ concat (map (\<lambda>i. [Ctx (MoveTo (i * (CELL_SIZE + 1) + 1) 0),
                              Ctx (LineTo (i * (CELL_SIZE + 1) + 1) ((CELL_SIZE + 1) * height + 1))])
                    [0..<width + 1])
         @ concat (map (\<lambda>j. [Ctx (MoveTo 0 (j * (CELL_SIZE + 1) + 1)),
                              Ctx (LineTo ((CELL_SIZE + 1) * width + 1) (j * (CELL_SIZE + 1) + 1))])
                    [0..<height + 1])
         @ [Ctx Stroke]\<rparr>
   \<and> length [0..<width + 1] = width + 1 \<and> length [0..<height + 1] = height + 1
   \<and> length (filter is_LineTo (trace (drawGrid width height w))) =
       length (filter is_LineTo (trace w)) + (width + 1) + (height + 1)
   \<and> length (filter ((=) (Ctx Stroke)) (trace (drawGrid width height w))) =
       length (filter ((=) (Ctx Stroke)) (trace w)) + 1
   \<and> length (filter ((=) (Ctx BeginPath)) (trace (drawGrid width height w))) =
       length (filter ((=) (Ctx BeginPath)) (trace w)) + 1
   \<and> stroke_styles (trace (drawGrid width height w)) = stroke_styles (trace w) @ [GRID_COLOR]"
proof -
  have t: "trace (drawGrid width height w) = trace w @ grid_lines width height"
    by (simp add: drawGrid_trace emit_all_def)
  have "drawGrid width height w =
     w\<lparr>trace := trace w
         @ [Ctx BeginPath, Ctx (StrokeStyle GRID_COLOR)]
         @ concat (map (\<lambda>i. [Ctx (MoveTo (i * (CELL_SIZE + 1) + 1) 0),
                              Ctx (LineTo (i * (CELL_SIZE + 1) + 1) ((CELL_SIZE + 1) * height + 1))])
                    [0..<width + 1])
         @ concat (map (\<lambda>j. [Ctx (MoveTo 0 (j * (CELL_SIZE + 1) + 1)),
                              Ctx (LineTo ((CELL_SIZE + 1) * width + 1) (j * (CELL_SIZE + 1) + 1))])
                    [0..<height + 1])
         @ [Ctx Stroke]\<rparr>"
    by (simp add: drawGrid_trace emit_all_def grid_lines_def)
  moreover have "length (filter is_LineTo (trace (drawGrid width height w))) =
       length (filter is_LineTo (trace w)) + (width + 1) + (height + 1)"
    unfolding t by (simp add: grid_lines_counts)
  moreover have "length (filter ((=) (Ctx Stroke)) (trace (drawGrid width height w))) =
       length (filter ((=) (Ctx Stroke)) (trace w)) + 1"
    unfolding t by (simp add: grid_lines_counts)
  moreover have "length (filter ((=) (Ctx BeginPath)) (trace (drawGrid width height w))) =
       length (filter ((=) (Ctx BeginPath)) (trace w)) + 1"
    unfolding t by (simp add: grid_lines_counts)
  moreover have "stroke_styles (trace (drawGrid width height w)) = stroke_styles (trace w) @ [GRID_COLOR]"
    unfolding t by (simp add: stroke_styles_append grid_lines_counts)
  ultimately show ?thesis by simp
qed

text \<open>
  C3. When the view over the engine's cells can be built, one call of \<^verbatim>\<open>drawCells\<close> goes
  through the rows from \<open>0\<close> to \<open>height - 1\<close> and, inside each row, through the columns
  from \<open>0\<close> to \<open>width - 1\<close>; for each cell it reads the view at \<open>row * width + col\<close>, sets
  the fill style from that byte and fills one \<open>CELL_SIZE\<close> by \<open>CELL_SIZE\<close> square at
  \<open>(col * (CELL_SIZE + 1) + 1, row * (CELL_SIZE + 1) + 1)\<close>. The squares and the indices read
  are pairwise different and there are \<open>width * height\<close> of them: no cell is left out or
  drawn twice.
\<close>

theorem drawCells_row_major:
  assumes "stateView eng width height (universe w) = Inr cells"
  shows "drawCells eng width height w =
      Done (w\<lparr>trace := trace w
          @ [Ctx BeginPath]
          @ concat (map (\<lambda>row. concat (map (\<lambda>col.
               [ViewRead (row * width + col),
                Ctx (FillStyle (if view_get cells (row * width + col) = Some Cell_Dead
                                then DEAD_COLOR else ALIVE_COLOR)),
                Ctx (FillRect (col * (CELL_SIZE + 1) + 1) (row * (CELL_SIZE + 1) + 1)
                       CELL_SIZE CELL_SIZE)])
               [0..<width])) [0..<height])
          @ [Ctx Stroke]\<rparr>)
    \<and> fill_rects (trace (world_of (drawCells eng width height w))) =
        fill_rects (trace w)
        @ map (\<lambda>(row, col). (col * (CELL_SIZE + 1) + 1, row * (CELL_SIZE + 1) + 1, CELL_SIZE, CELL_SIZE))
            (List.product [0..<height] [0..<width])
    \<and> view_reads (trace (world_of (drawCells eng width height w))) =
        view_reads (trace w)
        @ map (\<lambda>(row, col). row * width + col) (List.product [0..<height] [0..<width])
    \<and> distinct (map (\<lambda>(row, col). (col * (CELL_SIZE + 1) + 1, row * (CELL_SIZE + 1) + 1, CELL_SIZE, CELL_SIZE))
            (List.product [0..<height] [0..<width]))
    \<and> distinct (map (\<lambda>(row, col). row * width + col) (List.product [0..<height] [0..<width]))
    \<and> length (List.product [0..<height] [0..<width]) = width * height"
proof -
  have d: "drawCells eng width height w = Done (emit_all (cell_squares cells width height) w)"
    using assms by (rule drawCells_trace)
  have 1: "drawCells eng width height w =
      Done (w\<lparr>trace := trace w
          @ [Ctx BeginPath]
          @ concat (map (\<lambda>row. concat (map (\<lambda>col.
               [ViewRead (row * width + col),
                Ctx (FillStyle (if view_get cells (row * width + col) = Some Cell_Dead
                                then DEAD_COLOR else ALIVE_COLOR)),
                Ctx (FillRect (col * (CELL_SIZE + 1) + 1) (row * (CELL_SIZE + 1) + 1)
                       CELL_SIZE CELL_SIZE)])
               [0..<width])) [0..<height])
          @ [Ctx Stroke]\<rparr>)"
    unfolding d cell_squares_def emit_all_def concat_rows_product [symmetric] cell_square_def
    by simp
  have 2: "fill_rects (trace (world_of (drawCells eng width height w))) =
        fill_rects (trace w)
        @ map (\<lambda>(row, col). (col * (CELL_SIZE + 1) + 1, row * (CELL_SIZE + 1) + 1, CELL_SIZE, CELL_SIZE))
            (List.product [0..<height] [0..<width])"
    by (simp add: d emit_all_def cell_squares_def fill_rects_append fill_rects_cells)
  have 3: "view_reads (trace (world_of (drawCells eng width height w))) =
        view_reads (trace w)
        @ map (\<lambda>(row, col). row * width + col) (List.product [0..<height] [0..<width])"
    by (simp add: d emit_all_def cell_squares_def view_reads_append view_reads_cells)
  have dp: "distinct (List.product [0..<height] [0..<width])"
    by (simp add: distinct_product)
  have 4: "distinct (map (\<lambda>(row, col). (col * (CELL_SIZE + 1) + 1, row * (CELL_SIZE + 1) + 1, CELL_SIZE, CELL_SIZE))
            (List.product [0..<height] [0..<width]))"
    using dp by (auto simp: distinct_map inj_on_def CELL_SIZE_def)
  have "inj_on (\<lambda>(row, col). getIndex width row col) ({..<height} \<times> {..<width})"
    using getIndex_bij [of width height] by (simp add: bij_betw_def)
  then have "inj_on (\<lambda>(row, col). row * width + col) (set (List.product [0..<height] [0..<width]))"
    by (simp add: getIndex_def lessThan_atLeast0)
  with dp have 5: "distinct (map (\<lambda>(row, col). row * width + col) (List.product [0..<height] [0..<width]))"
    by (simp add: distinct_map)
  have 6: "length (List.product [0..<height] [0..<width]) = width * height"
    by (simp add: mult.commute)
  from 1 2 3 4 5 6 show ?thesis by blast
qed

theorem drawCells_row_major_witness:
  "drawCells (small_engine 2 1) 2 1 \<lparr>universe = [255, 0, 1], trace = [], pending = 0\<rparr> =
     Done \<lparr>universe = [255, 0, 1],
           trace = [Ctx BeginPath,
                    ViewRead 0, Ctx (FillStyle ''#FFFFFF''), Ctx (FillRect 1 1 5 5),
                    ViewRead 1, Ctx (FillStyle ''#000000''), Ctx (FillRect 7 1 5 5),
                    Ctx Stroke],
           pending = 0\<rparr>"
proof -
  have h: "stateView (small_engine 2 1) 2 1 (universe \<lparr>universe = [255, 0, 1], trace = [], pending = 0\<rparr>) =
      Inr \<lparr>v_buffer = [255, 0, 1], v_byteOffset = 1, v_length = 2\<rparr>"
    by (simp add: stateView_def new_Uint8Array_def small_engine_def)
  show ?thesis
    using drawCells_row_major [OF h]
    by (simp add: upt_0_1 upt_0_2 view_get_def Cell_Dead_def DEAD_COLOR_def ALIVE_COLOR_def CELL_SIZE_def)
qed

text \<open>
  C4. The fill style set for a cell is \<open>fill_color\<close> of the byte the engine holds for that
  cell, whatever was drawn before and however many frames are pending; \<open>fill_color\<close> gives
  the dead colour exactly for the byte \<open>Cell_Dead\<close> (0) and the alive colour exactly for the
  bytes other than 0.
\<close>

theorem fill_color_of_byte:
  assumes "stateView eng width height (universe w) = Inr cells"
  shows "fill_styles (trace (world_of (drawCells eng width height w))) =
      fill_styles (trace w)
      @ map (\<lambda>(row, col).
               fill_color (e_buffer eng (universe w) ! (e_cells eng (universe w) + (row * width + col))))
          (List.product [0..<height] [0..<width])
    \<and> (\<forall>b. fill_color b = DEAD_COLOR \<longleftrightarrow> b = Cell_Dead)
    \<and> (\<forall>b. fill_color b = ALIVE_COLOR \<longleftrightarrow> b \<noteq> 0)"
proof -
  have d: "drawCells eng width height w = Done (emit_all (cell_squares cells width height) w)"
    using assms by (rule drawCells_trace)
  from stateView_Inr [OF assms] have cells:
    "cells = \<lparr>v_buffer = e_buffer eng (universe w), v_byteOffset = e_cells eng (universe w),
              v_length = width * height\<rparr>"
    by simp
  have "map (\<lambda>(row, col). if view_get cells (row * width + col) = Some Cell_Dead
                         then DEAD_COLOR else ALIVE_COLOR) (List.product [0..<height] [0..<width]) =
        map (\<lambda>(row, col).
               fill_color (e_buffer eng (universe w) ! (e_cells eng (universe w) + (row * width + col))))
          (List.product [0..<height] [0..<width])"
  proof (rule map_cong [OF refl])
    fix p assume p: "p \<in> set (List.product [0..<height] [0..<width])"
    obtain row col where rc: "p = (row, col)" by (cases p)
    with p have "row * width + col < width * height"
      by (simp add: index_in_range)
    then show "(case p of (row, col) \<Rightarrow> if view_get cells (row * width + col) = Some Cell_Dead
                         then DEAD_COLOR else ALIVE_COLOR) =
       (case p of (row, col) \<Rightarrow>
               fill_color (e_buffer eng (universe w) ! (e_cells eng (universe w) + (row * width + col))))"
      by (simp add: rc cells view_get_def fill_color_def Cell_Dead_def DEAD_COLOR_def ALIVE_COLOR_def)
  qed
  then have "fill_styles (trace (world_of (drawCells eng width height w))) =
      fill_styles (trace w)
      @ map (\<lambda>(row, col).
               fill_color (e_buffer eng (universe w) ! (e_cells eng (universe w) + (row * width + col))))
          (List.product [0..<height] [0..<width])"
    by (simp add: d emit_all_def cell_squares_def fill_styles_append fill_styles_cells)
  moreover have "\<forall>b. fill_color b = DEAD_COLOR \<longleftrightarrow> b = Cell_Dead"
    by (simp add: fill_color_def DEAD_COLOR_def Cell_Dead_def)
  moreover have "\<forall>b. fill_color b = ALIVE_COLOR \<longleftrightarrow> b \<noteq> 0"
    by (simp add: fill_color_def ALIVE_COLOR_def)
  ultimately show ?thesis by blast
qed

theorem fill_color_of_byte_witness:
  "fill_styles (trace (world_of (drawCells (small_engine 2 1) 2 1
       \<lparr>universe = [255, 0, 7], trace = [Ctx (FillStyle ''#000000'')], pending = 3\<rparr>))) =
     [''#000000'', ''#FFFFFF'', ''#000000'']
   \<and> fill_color 0 = ''#FFFFFF'' \<and> fill_color 7 = ''#000000''"
proof -
  have h: "stateView (small_engine 2 1) 2 1
        (universe \<lparr>universe = [255, 0, 7], trace = [Ctx (FillStyle ''#000000'')], pending = 3\<rparr>) =
      Inr \<lparr>v_buffer = [255, 0, 7], v_byteOffset = 1, v_length = 2\<rparr>"
    by (simp add: stateView_def new_Uint8Array_def small_engine_def)
  show ?thesis
    using fill_color_of_byte [OF h]
    by (simp add: upt_0_1 upt_0_2 fill_color_def small_engine_def)
qed

text \<open>
  C10. Every index \<^verbatim>\<open>drawCells\<close> reads from the view is \<open>getIndex width row col\<close> for a row
  below \<open>height\<close> and a column below \<open>width\<close>; it lies below \<open>width * height\<close>, the length
  of the view, so the read gives a byte of the engine's memory and never \<^verbatim>\<open>undefined\<close>.
  When the view cannot be built, the call throws before any read.
\<close>

theorem drawCells_reads_in_bounds:
  "(\<forall>e. stateView eng width height (universe w) = Inl e \<longrightarrow>
        drawCells eng width height w = Threw e w)
   \<and> (\<forall>cells. stateView eng width height (universe w) = Inr cells \<longrightarrow>
        v_length cells = width * height
        \<and> view_reads (trace (world_of (drawCells eng width height w))) =
            view_reads (trace w)
            @ map (\<lambda>(row, col). getIndex width row col) (List.product [0..<height] [0..<width])
        \<and> (\<forall>(row, col) \<in> set (List.product [0..<height] [0..<width]).
              getIndex width row col < width * height
              \<and> view_get cells (getIndex width row col) =
                  Some (e_buffer eng (universe w) ! (e_cells eng (universe w) + getIndex width row col))
              \<and> e_cells eng (universe w) + getIndex width row col < length (e_buffer eng (universe w))))"
proof (intro conjI allI impI)
  fix e assume "stateView eng width height (universe w) = Inl e"
  then show "drawCells eng width height w = Threw e w"
    by (rule drawCells_throws)
next
  fix cells assume v: "stateView eng width height (universe w) = Inr cells"
  from stateView_Inr [OF v] show "v_length cells = width * height"
    by simp
  have d: "drawCells eng width height w = Done (emit_all (cell_squares cells width height) w)"
    using v by (rule drawCells_trace)
  show "view_reads (trace (world_of (drawCells eng width height w))) =
            view_reads (trace w)
            @ map (\<lambda>(row, col). getIndex width row col) (List.product [0..<height] [0..<width])"
    by (simp add: d emit_all_def cell_squares_def view_reads_append view_reads_cells getIndex_def)
  from stateView_Inr [OF v] have cells:
    "cells = \<lparr>v_buffer = e_buffer eng (universe w), v_byteOffset = e_cells eng (universe w),
              v_length = width * height\<rparr>"
    and fits: "e_cells eng (universe w) + width * height \<le> length (e_buffer eng (universe w))"
    by simp_all
  show "\<forall>(row, col) \<in> set (List.product [0..<height] [0..<width]).
              getIndex width row col < width * height
              \<and> view_get cells (getIndex width row col) =
                  Some (e_buffer eng (universe w) ! (e_cells eng (universe w) + getIndex width row col))
              \<and> e_cells eng (universe w) + getIndex width row col < length (e_buffer eng (universe w))"
  proof (clarify, intro conjI)
    fix row col assume "(row, col) \<in> set (List.product [0..<height] [0..<width])"
    then have i: "getIndex width row col < width * height"
      by (simp add: getIndex_def index_in_range)
    then show "getIndex width row col < width * height" .
    from i show "view_get cells (getIndex width row col) =
        Some (e_buffer eng (universe w) ! (e_cells eng (universe w) + getIndex width row col))"
      by (simp add: cells view_get_def)
    from i fits show "e_cells eng (universe w) + getIndex width row col < length (e_buffer eng (universe w))"
      by simp
  qed
qed

theorem drawCells_reads_in_bounds_witness:
  "view_reads (trace (world_of (drawCells (small_engine 2 2) 2 2
       \<lparr>universe = [255, 0, 1, 1, 0], trace = [], pending = 0\<rparr>))) = [0, 1, 2, 3]
   \<and> view_get \<lparr>v_buffer = [255, 0, 1, 1, 0], v_byteOffset = 1, v_length = 4\<rparr> (getIndex 2 1 1) = Some 0
   \<and> drawCells (small_engine 2 2) 2 2 \<lparr>universe = [255, 0, 1], trace = [], pending = 0\<rparr> =
       Threw RangeError \<lparr>universe = [255, 0, 1], trace = [], pending = 0\<rparr>"
proof -
  have h: "stateView (small_engine 2 2) 2 2
        (universe \<lparr>universe = [255, 0, 1, 1, 0], trace = [], pending = 0\<rparr>) =
      Inr \<lparr>v_buffer = [255, 0, 1, 1, 0], v_byteOffset = 1, v_length = 4\<rparr>"
    by (simp add: stateView_def new_Uint8Array_def small_engine_def)
  have g: "stateView (small_engine 2 2) 2 2
        (universe \<lparr>universe = [255, 0, 1], trace = [], pending = 0\<rparr>) = Inl RangeError"
    by (simp add: stateView_def new_Uint8Array_def small_engine_def)
  have m: "(1, 1) \<in> set (List.product [0..<2] [0..<(2::nat)])"
    by (simp add: upt_0_2)
  from drawCells_reads_in_bounds [of "small_engine 2 2" 2 2
      "\<lparr>universe = [255, 0, 1, 1, 0], trace = [], pending = 0\<rparr>"] h m
  have "view_reads (trace (world_of (drawCells (small_engine 2 2) 2 2
       \<lparr>universe = [255, 0, 1, 1, 0], trace = [], pending = 0\<rparr>))) = [0, 1, 2, 3]
     \<and> view_get \<lparr>v_buffer = [255, 0, 1, 1, 0], v_byteOffset = 1, v_length = 4\<rparr> (getIndex 2 1 1) = Some 0"
    by (simp add: upt_0_2 getIndex_def view_get_def)
  moreover from drawCells_reads_in_bounds [of "small_engine 2 2" 2 2
      "\<lparr>universe = [255, 0, 1], trace = [], pending = 0\<rparr>"] g
  have "drawCells (small_engine 2 2) 2 2 \<lparr>universe = [255, 0, 1], trace = [], pending = 0\<rparr> =
       Threw RangeError \<lparr>universe = [255, 0, 1], trace = [], pending = 0\<rparr>"
    by blast
  ultimately show ?thesis by blast
qed

lemma small_engine_tick_length:
  "length ((e_tick (small_engine cols rows) ^^ k) u) = length u"
proof (induction k)
  case 0
  show ?case by simp
next
  case (Suc k)
  have "length (e_tick (small_engine cols rows) v) = length v" for v
    by (cases v) (simp_all add: small_engine_def)
  with Suc show ?case
    by simp
qed

lemma small_engine_fits:
  "view_fits (small_engine cols rows) width height ((e_tick (small_engine cols rows) ^^ k) u)
     \<longleftrightarrow> 1 + width * height \<le> length u"
proof -
  have "e_buffer (small_engine cols rows) ((e_tick (small_engine cols rows) ^^ k) u) =
      (e_tick (small_engine cols rows) ^^ k) u"
    by (simp add: small_engine_def)
  moreover have "e_cells (small_engine cols rows) ((e_tick (small_engine cols rows) ^^ k) u) = 1"
    by (simp add: small_engine_def)
  ultimately show ?thesis
    unfolding view_fits_def by (simp only: small_engine_tick_length)
qed

lemma frames_renderLoop_pre_done:
  "0 < pending w \<Longrightarrow>
     \<exists>w'. frames (renderLoop_pre eng) n w = Done w'
           \<and> pending w' = pending w
           \<and> universe w' = (e_tick eng ^^ n) (universe w)
           \<and> length (filter ((=) EngineTick) (trace w')) = length (filter ((=) EngineTick) (trace w)) + n
           \<and> length (filter ((=) RequestAnimationFrame) (trace w')) =
               length (filter ((=) RequestAnimationFrame) (trace w)) + n"
proof (induction n arbitrary: w)
  case 0
  then show ?case by simp
next
  case (Suc n)
  let ?w0 = "w\<lparr>pending := pending w - 1\<rparr>"
  define w1 where "w1 = (emit_all [SetTextContent ''game-of-life-canvas'' (e_render eng (universe ?w0)),
                      EngineTick, RequestAnimationFrame] ?w0)
            \<lparr>universe := e_tick eng (universe ?w0), pending := Suc (pending ?w0)\<rparr>"
  have r: "renderLoop_pre eng ?w0 = Done w1"
    unfolding w1_def by (rule renderLoop_pre_done)
  have u1: "universe w1 = e_tick eng (universe w)" and p1: "pending w1 = pending w"
    and t1: "length (filter ((=) EngineTick) (trace w1)) = Suc (length (filter ((=) EngineTick) (trace w)))"
    and q1: "length (filter ((=) RequestAnimationFrame) (trace w1)) =
        Suc (length (filter ((=) RequestAnimationFrame) (trace w)))"
    using Suc.prems by (simp_all add: w1_def emit_all_def)
  from p1 Suc.prems have "0 < pending w1" by simp
  from Suc.IH [OF this] obtain w' where
    "frames (renderLoop_pre eng) n w1 = Done w'" "pending w' = pending w1"
    "universe w' = (e_tick eng ^^ n) (universe w1)"
    "length (filter ((=) EngineTick) (trace w')) = length (filter ((=) EngineTick) (trace w1)) + n"
    "length (filter ((=) RequestAnimationFrame) (trace w')) =
       length (filter ((=) RequestAnimationFrame) (trace w1)) + n"
    by blast
  with r Suc.prems u1 p1 t1 q1 show ?case
    by (simp add: funpow_swap1)
qed

text \<open>
  C6, as the two programs have it. In the canvas program a frame body whose view can be
  built performs, in this order: the write of the engine's text snapshot to the text
  element, the engine step, the calls of \<^verbatim>\<open>drawGrid\<close>, the calls of \<^verbatim>\<open>drawCells\<close> (on the
  view of the stepped state), and the request of the next frame, with which it ends. In
  the text-only program the frame body is the write of the snapshot, the engine step and
  the request of the next frame, in this order, and nothing else: that program draws no
  grid and no cells. In both programs \<open>n\<close> display refreshes run \<open>n\<close> frame bodies and
  leave a callback pending, for every \<open>n\<close> (in the canvas program as long as the engine
  keeps its cells inside its memory): the loop has no state in which it stops.
\<close>

theorem frame_order:
  "(\<forall>cells. stateView eng width height (e_tick eng (universe w)) = Inr cells \<longrightarrow>
      renderLoop eng width height w =
        Done (w\<lparr>universe := e_tick eng (universe w),
                trace := trace w
                  @ [SetTextContent ''game-of-life-pre'' (e_render eng (universe w)), EngineTick]
                  @ grid_lines width height
                  @ cell_squares cells width height
                  @ [RequestAnimationFrame],
                pending := Suc (pending w)\<rparr>))
   \<and> ((\<forall>k. view_fits eng width height ((e_tick eng ^^ Suc k) (universe w))) \<and> 0 < pending w \<longrightarrow>
        (\<exists>w'. frames (renderLoop eng width height) n w = Done w'
           \<and> pending w' = pending w
           \<and> universe w' = (e_tick eng ^^ n) (universe w)
           \<and> length (filter ((=) EngineTick) (trace w')) =
               length (filter ((=) EngineTick) (trace w)) + n
           \<and> length (filter ((=) RequestAnimationFrame) (trace w')) =
               length (filter ((=) RequestAnimationFrame) (trace w)) + n))
   \<and> renderLoop_pre eng w =
        Done (w\<lparr>universe := e_tick eng (universe w),
                trace := trace w
                  @ [SetTextContent ''game-of-life-canvas'' (e_render eng (universe w)),
                     EngineTick, RequestAnimationFrame],
                pending := Suc (pending w)\<rparr>)
   \<and> (0 < pending w \<longrightarrow>
        (\<exists>w'. frames (renderLoop_pre eng) n w = Done w'
           \<and> pending w' = pending w
           \<and> universe w' = (e_tick eng ^^ n) (universe w)
           \<and> length (filter ((=) EngineTick) (trace w')) =
               length (filter ((=) EngineTick) (trace w)) + n
           \<and> length (filter ((=) RequestAnimationFrame) (trace w')) =
               length (filter ((=) RequestAnimationFrame) (trace w)) + n))"
proof (intro conjI allI impI)
  fix cells assume "stateView eng width height (e_tick eng (universe w)) = Inr cells"
  from renderLoop_done [OF this]
  show "renderLoop eng width height w =
        Done (w\<lparr>universe := e_tick eng (universe w),
                trace := trace w
                  @ [SetTextContent ''game-of-life-pre'' (e_render eng (universe w)), EngineTick]
                  @ grid_lines width height
                  @ cell_squares cells width height
                  @ [RequestAnimationFrame],
                pending := Suc (pending w)\<rparr>)"
    by (simp add: emit_all_def)
next
  assume "(\<forall>k. view_fits eng width height ((e_tick eng ^^ Suc k) (universe w))) \<and> 0 < pending w"
  then show "\<exists>w'. frames (renderLoop eng width height) n w = Done w'
           \<and> pending w' = pending w
           \<and> universe w' = (e_tick eng ^^ n) (universe w)
           \<and> length (filter ((=) EngineTick) (trace w')) =
               length (filter ((=) EngineTick) (trace w)) + n
           \<and> length (filter ((=) RequestAnimationFrame) (trace w')) =
               length (filter ((=) RequestAnimationFrame) (trace w)) + n"
    using frames_renderLoop_done [of eng width height w n] by blast
next
  show "renderLoop_pre eng w =
        Done (w\<lparr>universe := e_tick eng (universe w),
                trace := trace w
                  @ [SetTextContent ''game-of-life-canvas'' (e_render eng (universe w)),
                     EngineTick, RequestAnimationFrame],
                pending := Suc (pending w)\<rparr>)"
    by (simp add: renderLoop_pre_done emit_all_def)
next
  assume "0 < pending w"
  then show "\<exists>w'. frames (renderLoop_pre eng) n w = Done w'
           \<and> pending w' = pending w
           \<and> universe w' = (e_tick eng ^^ n) (universe w)
           \<and> length (filter ((=) EngineTick) (trace w')) =
               length (filter ((=) EngineTick) (trace w)) + n
           \<and> length (filter ((=) RequestAnimationFrame) (trace w')) =
               length (filter ((=) RequestAnimationFrame) (trace w)) + n"
    by (rule frames_renderLoop_pre_done)
qed

theorem frame_order_witness:
  "renderLoop (small_engine 1 1) 1 1 \<lparr>universe = [255, 0], trace = [], pending = 0\<rparr> =
     Done \<lparr>universe = [255, 1],
           trace = [SetTextContent ''game-of-life-pre'' ''.'', EngineTick,
                    Ctx BeginPath, Ctx (StrokeStyle ''#CCCCCC''),
                    Ctx (MoveTo 1 0), Ctx (LineTo 1 7), Ctx (MoveTo 7 0), Ctx (LineTo 7 7),
                    Ctx (MoveTo 0 1), Ctx (LineTo 7 1), Ctx (MoveTo 0 7), Ctx (LineTo 7 7),
                    Ctx Stroke,
                    Ctx BeginPath, ViewRead 0, Ctx (FillStyle ''#000000''), Ctx (FillRect 1 1 5 5),
                    Ctx Stroke,
                    RequestAnimationFrame],
           pending = 1\<rparr>
   \<and> (\<exists>w'. frames (renderLoop (small_engine 1 1) 1 1) 3
              \<lparr>universe = [255, 0], trace = [RequestAnimationFrame], pending = 1\<rparr> = Done w'
         \<and> pending w' = 1
         \<and> universe w' = [255, 1]
         \<and> length (filter ((=) EngineTick) (trace w')) = 3
         \<and> length (filter ((=) RequestAnimationFrame) (trace w')) = 4)
   \<and> (\<exists>w'. frames (renderLoop_pre (small_engine 1 1)) 3
              \<lparr>universe = [255, 0], trace = [RequestAnimationFrame], pending = 1\<rparr> = Done w'
         \<and> pending w' = 1
         \<and> universe w' = [255, 1]
         \<and> length (filter ((=) EngineTick) (trace w')) = 3
         \<and> length (filter ((=) RequestAnimationFrame) (trace w')) = 4)"
proof -
  let ?E = "small_engine 1 1"
  let ?w = "\<lparr>universe = [255, 0], trace = [], pending = 0\<rparr> :: (byte list) world"
  let ?v = "\<lparr>universe = [255, 0], trace = [RequestAnimationFrame], pending = 1\<rparr> :: (byte list) world"
  have t: "e_tick (small_engine c r) [255, 0] = [255, 1]"
    "e_tick (small_engine c r) [255, 1] = [255, 0]" for c r
    by (simp_all add: small_engine_def toggle_def)
  have h: "stateView ?E 1 1 (e_tick ?E (universe ?w)) =
      Inr \<lparr>v_buffer = [255, 1], v_byteOffset = 1, v_length = 1\<rparr>"
    by (simp add: stateView_def new_Uint8Array_def small_engine_def toggle_def)
  have f: "\<forall>k. view_fits ?E 1 1 ((e_tick ?E ^^ Suc k) (universe ?v))"
    by (simp only: small_engine_fits) simp
  have p: "0 < pending ?v"
    by simp
  have r: "e_render (small_engine c r) [255, 0] = ''.''" for c r
    by (simp add: small_engine_def)
  have 3: "(e_tick (small_engine c r) ^^ 3) [255, 0] = [255, 1]" for c r
    by (simp add: eval_nat_numeral t)
  from frame_order [of ?E 1 1 ?w 0] h
  have 1: "renderLoop ?E 1 1 ?w =
     Done \<lparr>universe = [255, 1],
           trace = [SetTextContent ''game-of-life-pre'' ''.'', EngineTick,
                    Ctx BeginPath, Ctx (StrokeStyle ''#CCCCCC''),
                    Ctx (MoveTo 1 0), Ctx (LineTo 1 7), Ctx (MoveTo 7 0), Ctx (LineTo 7 7),
                    Ctx (MoveTo 0 1), Ctx (LineTo 7 1), Ctx (MoveTo 0 7), Ctx (LineTo 7 7),
                    Ctx Stroke,
                    Ctx BeginPath, ViewRead 0, Ctx (FillStyle ''#000000''), Ctx (FillRect 1 1 5 5),
                    Ctx Stroke,
                    RequestAnimationFrame],
           pending = 1\<rparr>"
    by (simp add: t r grid_lines_def cell_squares_def cell_square_def upt_0_1 upt_0_2 view_get_def
        Cell_Dead_def GRID_COLOR_def DEAD_COLOR_def ALIVE_COLOR_def CELL_SIZE_def)
  from frame_order [of ?E 1 1 ?v 3] f p
  have 2: "\<exists>w'. frames (renderLoop ?E 1 1) 3 ?v = Done w'
         \<and> pending w' = 1
         \<and> universe w' = [255, 1]
         \<and> length (filter ((=) EngineTick) (trace w')) = 3
         \<and> length (filter ((=) RequestAnimationFrame) (trace w')) = 4"
    by (simp add: 3)
  from frame_order [of ?E 1 1 ?v 3] p
  have 4: "\<exists>w'. frames (renderLoop_pre ?E) 3 ?v = Done w'
         \<and> pending w' = 1
         \<and> universe w' = [255, 1]
         \<and> length (filter ((=) EngineTick) (trace w')) = 3
         \<and> length (filter ((=) RequestAnimationFrame) (trace w')) = 4"
    by (simp add: 3)
  from 1 2 4 show ?thesis by blast
qed

text \<open>
  C6 as stated does not hold of the text-only program: its frame body has three steps,
  and no call on a drawing context is among them.
\<close>

theorem frame_order_counterexample:
  "renderLoop_pre (small_engine 1 1) \<lparr>universe = [255, 0], trace = [], pending = 0\<rparr> =
     Done \<lparr>universe = [255, 1],
           trace = [SetTextContent ''game-of-life-canvas'' ''.'', EngineTick, RequestAnimationFrame],
           pending = 1\<rparr>"
  by (simp add: renderLoop_pre_def requestAnimationFrame_def emit_def Let_def
      small_engine_def toggle_def)

lemma frames_idle: "pending w = 0 \<Longrightarrow> frames callback n w = Done w"
  by (cases n) simp_all

lemma run_resolved:
  assumes "Universe_new eng Exports (universe w) = Inr u"
  shows "run eng Resolved n w =
     frames (renderLoop eng (e_width eng u) (e_height eng u)) n
       (w\<lparr>universe := u,
          trace := trace w @ [SetCanvasHeight ((CELL_SIZE + 1) * e_height eng u + 1),
                              SetCanvasWidth ((CELL_SIZE + 1) * e_width eng u + 1),
                              RequestAnimationFrame],
          pending := Suc (pending w)\<rparr>)"
  using assms
  by (simp add: run_def await_init_def Let_def requestAnimationFrame_def emit_def)

text \<open>
  C7. When startup succeeds, the canvas height is set to \<open>(CELL_SIZE + 1) * height + 1\<close> and
  the canvas width to \<open>(CELL_SIZE + 1) * width + 1\<close>, once each and before the first frame
  is requested; however many frames follow, and whether or not one of them throws, no
  other write to the canvas size occurs.
\<close>

theorem canvas_sized_once:
  assumes "Universe_new eng Exports (universe w) = Inr u"
    and "filter is_canvas_size (trace w) = []"
  shows "filter is_canvas_size (trace (world_of (run eng Resolved n w))) =
      [SetCanvasHeight ((CELL_SIZE + 1) * e_height eng u + 1),
       SetCanvasWidth ((CELL_SIZE + 1) * e_width eng u + 1)]
    \<and> run eng Resolved 0 w =
        Done (w\<lparr>universe := u,
                trace := trace w @ [SetCanvasHeight ((CELL_SIZE + 1) * e_height eng u + 1),
                                    SetCanvasWidth ((CELL_SIZE + 1) * e_width eng u + 1),
                                    RequestAnimationFrame],
                pending := Suc (pending w)\<rparr>)"
  using assms by (simp add: run_resolved frames_canvas_size)

theorem canvas_sized_once_witness:
  "filter is_canvas_size (trace (world_of (run (small_engine 2 1) Resolved 2
       \<lparr>universe = [], trace = [], pending = 0\<rparr>))) =
     [SetCanvasHeight 7, SetCanvasWidth 13]
   \<and> run (small_engine 2 1) Resolved 0 \<lparr>universe = [], trace = [], pending = 0\<rparr> =
       Done \<lparr>universe = [255, 0, 0],
             trace = [SetCanvasHeight 7, SetCanvasWidth 13, RequestAnimationFrame],
             pending = 1\<rparr>"
proof -
  let ?w = "\<lparr>universe = [], trace = [], pending = 0\<rparr> :: (byte list) world"
  have h: "Universe_new (small_engine 2 1) Exports (universe ?w) = Inr [255, 0, 0]"
    by (simp add: small_engine_def eval_nat_numeral)
  have g: "filter is_canvas_size (trace ?w) = []"
    by simp
  have d: "e_height (small_engine c r) v = r" "e_width (small_engine c r) v = c" for c r v
    by (simp_all add: small_engine_def)
  from canvas_sized_once [OF h g, of 2] canvas_sized_once [OF h g, of 0]
  show ?thesis
    by (simp add: d CELL_SIZE_def)
qed

text \<open>
  C9, as the two programs have it. When \<^verbatim>\<open>init()\<close> is rejected with an error, both
  programs pass the error to \<^verbatim>\<open>console.error\<close>. The canvas program then throws (reading
  \<^verbatim>\<open>memory\<close> of \<^verbatim>\<open>undefined\<close>): nothing else happens and no frame is requested. The
  text-only program goes on to \<^verbatim>\<open>Universe.new()\<close>: when that call throws, startup ends
  there with no frame requested; when it returns, the first frame is requested and the
  loop runs. An error thrown by \<^verbatim>\<open>Universe.new()\<close> after \<^verbatim>\<open>init()\<close> has resolved ends
  startup, in both programs, before anything is requested, and nothing is logged. With no
  callback pending, display refreshes after a failed startup run no frame.
\<close>

theorem init_failure:
  "run eng (Rejected e) n w = Threw TypeError (w\<lparr>trace := trace w @ [ConsoleError e]\<rparr>)
   \<and> (\<forall>x. Universe_new eng Undefined (universe w) = Inl x \<longrightarrow>
        run_pre eng (Rejected e) n w = Threw x (w\<lparr>trace := trace w @ [ConsoleError e]\<rparr>))
   \<and> (\<forall>u. Universe_new eng Undefined (universe w) = Inr u \<longrightarrow>
        run_pre eng (Rejected e) n w =
          frames (renderLoop_pre eng) n
            (w\<lparr>universe := u,
               trace := trace w @ [ConsoleError e, RequestAnimationFrame],
               pending := Suc (pending w)\<rparr>))
   \<and> (\<forall>x. Universe_new eng Exports (universe w) = Inl x \<longrightarrow>
        run eng Resolved n w = Threw x w \<and> run_pre eng Resolved n w = Threw x w)
   \<and> (pending w = 0 \<longrightarrow>
        frames callback n (w\<lparr>trace := trace w @ [ConsoleError e]\<rparr>) =
          Done (w\<lparr>trace := trace w @ [ConsoleError e]\<rparr>))"
  by (simp add: run_def run_pre_def await_init_def emit_def requestAnimationFrame_def frames_idle)

theorem init_failure_witness:
  "run (small_engine 2 1) (Rejected (InitError ''fetch failed'')) 5
       \<lparr>universe = [], trace = [], pending = 0\<rparr> =
     Threw TypeError \<lparr>universe = [], trace = [ConsoleError (InitError ''fetch failed'')], pending = 0\<rparr>
   \<and> run_pre (small_engine 2 1) (Rejected (InitError ''fetch failed'')) 5
       \<lparr>universe = [], trace = [], pending = 0\<rparr> =
     Threw TypeError \<lparr>universe = [], trace = [ConsoleError (InitError ''fetch failed'')], pending = 0\<rparr>
   \<and> run_pre ((small_engine 2 1)\<lparr>Universe_new := \<lambda>wasm u. Inr [255, 0, 0]\<rparr>)
       (Rejected (InitError ''fetch failed'')) 0 \<lparr>universe = [], trace = [], pending = 0\<rparr> =
     Done \<lparr>universe = [255, 0, 0],
           trace = [ConsoleError (InitError ''fetch failed''), RequestAnimationFrame],
           pending = 1\<rparr>
   \<and> run ((small_engine 2 1)\<lparr>Universe_new := \<lambda>wasm u. Inl (InitError ''out of memory'')\<rparr>)
       Resolved 5 \<lparr>universe = [], trace = [], pending = 0\<rparr> =
     Threw (InitError ''out of memory'') \<lparr>universe = [], trace = [], pending = 0\<rparr>
   \<and> frames (renderLoop (small_engine 2 1) 2 1) 5
       \<lparr>universe = [], trace = [ConsoleError (InitError ''fetch failed'')], pending = 0\<rparr> =
     Done \<lparr>universe = [], trace = [ConsoleError (InitError ''fetch failed'')], pending = 0\<rparr>"
proof -
  let ?w = "\<lparr>universe = [], trace = [], pending = 0\<rparr> :: (byte list) world"
  let ?e = "InitError ''fetch failed''"
  let ?L = "(small_engine 2 1)\<lparr>Universe_new := \<lambda>wasm u. Inr [255, 0, 0]\<rparr>"
  let ?T = "(small_engine 2 1)\<lparr>Universe_new := \<lambda>wasm u. Inl (InitError ''out of memory'')\<rparr>"
  have h: "Universe_new (small_engine 2 1) Undefined (universe ?w) = Inl TypeError"
    by (simp add: small_engine_def)
  have l: "Universe_new ?L Undefined (universe ?w) = Inr [255, 0, 0]"
    by simp
  have t: "Universe_new ?T Exports (universe ?w) = Inl (InitError ''out of memory'')"
    by simp
  have p: "pending ?w = 0"
    by simp
  from init_failure [of "small_engine 2 1" ?e 5 ?w "renderLoop (small_engine 2 1) 2 1"] h p
  have 1: "run (small_engine 2 1) (Rejected ?e) 5 ?w =
       Threw TypeError \<lparr>universe = [], trace = [ConsoleError ?e], pending = 0\<rparr>
     \<and> run_pre (small_engine 2 1) (Rejected ?e) 5 ?w =
       Threw TypeError \<lparr>universe = [], trace = [ConsoleError ?e], pending = 0\<rparr>
     \<and> frames (renderLoop (small_engine 2 1) 2 1) 5
         \<lparr>universe = [], trace = [ConsoleError ?e], pending = 0\<rparr> =
       Done \<lparr>universe = [], trace = [ConsoleError ?e], pending = 0\<rparr>"
    by simp
  from init_failure [of ?L ?e 0 ?w] l
  have 2: "run_pre ?L (Rejected ?e) 0 ?w =
     Done \<lparr>universe = [255, 0, 0], trace = [ConsoleError ?e, RequestAnimationFrame], pending = 1\<rparr>"
    by simp
  from init_failure [of ?T _ 5 ?w] t
  have 3: "run ?T Resolved 5 ?w = Threw (InitError ''out of memory'') ?w"
    by simp
  from 1 2 3 show ?thesis by simp
qed

text \<open>
  C9 as stated does not hold: with bindings whose \<^verbatim>\<open>Universe.new()\<close> returns on a module
  that was never instantiated, the text-only program enters the loop after a rejected
  \<^verbatim>\<open>init()\<close>; and an error thrown by \<^verbatim>\<open>Universe.new()\<close> after a resolved \<^verbatim>\<open>init()\<close>
  ends startup of the canvas program with nothing logged.
\<close>

theorem init_failure_counterexample:
  "run_pre ((small_engine 1 1)\<lparr>Universe_new := \<lambda>wasm u. Inr [255, 0]\<rparr>)
       (Rejected (InitError ''fetch failed'')) 1 \<lparr>universe = [], trace = [], pending = 0\<rparr> =
     Done \<lparr>universe = [255, 1],
           trace = [ConsoleError (InitError ''fetch failed''), RequestAnimationFrame,
                    SetTextContent ''game-of-life-canvas'' ''.'', EngineTick,
                    RequestAnimationFrame],
           pending = 1\<rparr>
   \<and> run ((small_engine 1 1)\<lparr>Universe_new := \<lambda>wasm u. Inl (InitError ''out of memory'')\<rparr>)
       Resolved 1 \<lparr>universe = [], trace = [], pending = 0\<rparr> =
     Threw (InitError ''out of memory'') \<lparr>universe = [], trace = [], pending = 0\<rparr>"
  by (simp add: run_def run_pre_def await_init_def renderLoop_pre_def requestAnimationFrame_def
      emit_def Let_def small_engine_def toggle_def)

text \<open>
  C8. Two calls of \<^verbatim>\<open>drawCells\<close> with no engine step between them build the same view,
  with the same byte at every index below \<open>width * height\<close>, and leave the same events.
  Inside a frame the view is built after the engine step of that frame, from the stepped
  state, and the events of the frame are those of that view.
\<close>

theorem stateView_rebuilt:
  "(\<forall>cells. stateView eng width height (universe w) = Inr cells \<longrightarrow>
      (\<exists>w1 w2. drawCells eng width height w = Done w1
         \<and> drawCells eng width height w1 = Done w2
         \<and> stateView eng width height (universe w1) = Inr cells
         \<and> trace w1 = trace w @ cell_squares cells width height
         \<and> trace w2 = trace w1 @ cell_squares cells width height
         \<and> (\<forall>i<width * height.
               view_get cells i = Some (e_buffer eng (universe w) ! (e_cells eng (universe w) + i)))))
   \<and> (\<forall>cells'. stateView eng width height (e_tick eng (universe w)) = Inr cells' \<longrightarrow>
      (\<exists>w'. renderLoop eng width height w = Done w'
         \<and> universe w' = e_tick eng (universe w)
         \<and> stateView eng width height (universe w') = Inr cells'
         \<and> trace w' = trace w
             @ [SetTextContent ''game-of-life-pre'' (e_render eng (universe w)), EngineTick]
             @ grid_lines width height @ cell_squares cells' width height
             @ [RequestAnimationFrame]))"
proof (intro conjI allI impI)
  fix cells assume v: "stateView eng width height (universe w) = Inr cells"
  define w1 where "w1 = emit_all (cell_squares cells width height) w"
  define w2 where "w2 = emit_all (cell_squares cells width height) w1"
  have u1: "universe w1 = universe w"
    by (simp add: w1_def emit_all_def)
  have d1: "drawCells eng width height w = Done w1"
    unfolding w1_def using v by (rule drawCells_trace)
  from v u1 have v1: "stateView eng width height (universe w1) = Inr cells"
    by simp
  have d2: "drawCells eng width height w1 = Done w2"
    unfolding w2_def using v1 by (rule drawCells_trace)
  from stateView_Inr [OF v] have cells:
    "cells = \<lparr>v_buffer = e_buffer eng (universe w), v_byteOffset = e_cells eng (universe w),
              v_length = width * height\<rparr>"
    by simp
  have g: "\<forall>i<width * height.
      view_get cells i = Some (e_buffer eng (universe w) ! (e_cells eng (universe w) + i))"
    by (simp add: cells view_get_def)
  have "trace w1 = trace w @ cell_squares cells width height"
    "trace w2 = trace w1 @ cell_squares cells width height"
    by (simp_all add: w1_def w2_def emit_all_def)
  with d1 d2 v1 g
  show "\<exists>w1 w2. drawCells eng width height w = Done w1
         \<and> drawCells eng width height w1 = Done w2
         \<and> stateView eng width height (universe w1) = Inr cells
         \<and> trace w1 = trace w @ cell_squares cells width height
         \<and> trace w2 = trace w1 @ cell_squares cells width height
         \<and> (\<forall>i<width * height.
               view_get cells i = Some (e_buffer eng (universe w) ! (e_cells eng (universe w) + i)))"
    by blast
next
  fix cells' assume v: "stateView eng width height (e_tick eng (universe w)) = Inr cells'"
  from renderLoop_done [OF v] v
  show "\<exists>w'. renderLoop eng width height w = Done w'
         \<and> universe w' = e_tick eng (universe w)
         \<and> stateView eng width height (universe w') = Inr cells'
         \<and> trace w' = trace w
             @ [SetTextContent ''game-of-life-pre'' (e_render eng (universe w)), EngineTick]
             @ grid_lines width height @ cell_squares cells' width height
             @ [RequestAnimationFrame]"
    by (simp add: emit_all_def)
qed

theorem stateView_rebuilt_witness:
  "(\<exists>w1 w2. drawCells (small_engine 2 1) 2 1 \<lparr>universe = [255, 0, 1], trace = [], pending = 0\<rparr> = Done w1
       \<and> drawCells (small_engine 2 1) 2 1 w1 = Done w2
       \<and> stateView (small_engine 2 1) 2 1 (universe w1) =
           Inr \<lparr>v_buffer = [255, 0, 1], v_byteOffset = 1, v_length = 2\<rparr>
       \<and> trace w2 = trace w1 @ trace w1)
   \<and> (\<exists>w'. renderLoop (small_engine 2 1) 2 1 \<lparr>universe = [255, 0, 1], trace = [], pending = 0\<rparr> = Done w'
       \<and> universe w' = [255, 1, 0]
       \<and> stateView (small_engine 2 1) 2 1 (universe w') =
           Inr \<lparr>v_buffer = [255, 1, 0], v_byteOffset = 1, v_length = 2\<rparr>)"
proof -
  let ?E = "small_engine 2 1"
  let ?w = "\<lparr>universe = [255, 0, 1], trace = [], pending = 0\<rparr> :: (byte list) world"
  have t: "e_tick (small_engine c r) [255, 0, 1] = [255, 1, 0]" for c r
    by (simp add: small_engine_def toggle_def)
  have h: "stateView ?E 2 1 (universe ?w) = Inr \<lparr>v_buffer = [255, 0, 1], v_byteOffset = 1, v_length = 2\<rparr>"
    by (simp add: stateView_def new_Uint8Array_def small_engine_def)
  have g: "stateView ?E 2 1 (e_tick ?E (universe ?w)) =
      Inr \<lparr>v_buffer = [255, 1, 0], v_byteOffset = 1, v_length = 2\<rparr>"
    by (simp add: stateView_def new_Uint8Array_def small_engine_def toggle_def)
  from stateView_rebuilt [of ?E 2 1 ?w] h
  have 1: "\<exists>w1 w2. drawCells ?E 2 1 ?w = Done w1
       \<and> drawCells ?E 2 1 w1 = Done w2
       \<and> stateView ?E 2 1 (universe w1) =
           Inr \<lparr>v_buffer = [255, 0, 1], v_byteOffset = 1, v_length = 2\<rparr>
       \<and> trace w2 = trace w1 @ trace w1"
    by fastforce
  from stateView_rebuilt [of ?E 2 1 ?w] g
  have "\<exists>w'. renderLoop ?E 2 1 ?w = Done w'
       \<and> universe w' = e_tick ?E (universe ?w)
       \<and> stateView ?E 2 1 (universe w') =
           Inr \<lparr>v_buffer = [255, 1, 0], v_byteOffset = 1, v_length = 2\<rparr>"
    by blast
  then have 2: "\<exists>w'. renderLoop ?E 2 1 ?w = Done w'
       \<and> universe w' = [255, 1, 0]
       \<and> stateView ?E 2 1 (universe w') =
           Inr \<lparr>v_buffer = [255, 1, 0], v_byteOffset = 1, v_length = 2\<rparr>"
    by (simp add: t)
  from 1 2 show ?thesis by blast
qed




end
